theory Spec2Isabelle
  imports Complex_Main
begin

section \<open>Exceptions and results\<close>

text \<open>
  Every \<^verbatim>\<open>raise\<close> of \<^verbatim>\<open>server/handlers/ugv/prod.py\<close> is a value. The handler's own
  error classes come from \<^verbatim>\<open>utils.errors\<close>; the others are Python's. The source always
  writes \<^verbatim>\<open>raise GeneralError(str(e)) from e\<close>: the model keeps the cause \<open>e\<close> itself, from
  which the message is derived. \<open>LinkError\<close> stands for any other exception an external
  collaborator (the vehicle link, the target provider) raises.
\<close>

datatype exc =
    GeneralError exc
  | InvalidRequestError string
  | InvalidStateError string
  | TimeoutError string
  | Exception string
  | ValueError
  | TypeError
  | KeyError string
  | IndexError
  | AttributeError
  | LinkError string

definition and_then :: "exc + 'a \<Rightarrow> ('a \<Rightarrow> exc + 'b) \<Rightarrow> exc + 'b" where
  "and_then m f = (case m of Inl e \<Rightarrow> Inl e | Inr a \<Rightarrow> f a)"

section \<open>Mission files: \<^verbatim>\<open>readmission\<close>\<close>

text \<open>
  Python floats are modelled as \<^typ>\<open>real\<close> (overflow is not modelled, and rounding only
  where a claim turns on it: for the yaw, \<open>yaw_degrees_rounded\<close> below is the computation
  with its roundings) and Python ints as \<^typ>\<open>int\<close>. A text file is the list of its lines, as
  iteration over the file object yields them. Strings are lists of 8-bit characters; the
  string helpers below follow Python on ASCII text.
\<close>

text \<open>\<^verbatim>\<open>dronekit.Command(target_system, target_component, seq, frame, command, current,
  autocontinue, param1, param2, param3, param4, x, y, z)\<close>.\<close>

record mav_command =
  target_system :: int
  target_component :: int
  seq :: int
  frame :: int
  command :: int
  current :: int
  autocontinue :: int
  param1 :: real
  param2 :: real
  param3 :: real
  param4 :: real
  cmd_x :: real
  cmd_y :: real
  cmd_z :: real

text \<open>\<^verbatim>\<open>line.startswith(p)\<close>.\<close>

definition startswith :: "string \<Rightarrow> string \<Rightarrow> bool" where
  "startswith s p = (take (length p) s = p)"

text \<open>\<^verbatim>\<open>line.split(sep)\<close> for a one-character separator: never an empty list.\<close>

fun str_split :: "char \<Rightarrow> string \<Rightarrow> string list" where
  "str_split sep [] = [[]]"
| "str_split sep (c # cs) =
     (if c = sep then [] # str_split sep cs
      else (case str_split sep cs of [] \<Rightarrow> [[c]] | w # ws \<Rightarrow> (c # w) # ws))"

text \<open>\<^verbatim>\<open>str.strip()\<close>: the ASCII characters for which \<^verbatim>\<open>str.isspace\<close> holds.\<close>

definition isspace :: "char \<Rightarrow> bool" where
  "isspace c = (c \<in> set [CHR 0x09, CHR 0x0A, CHR 0x0B, CHR 0x0C, CHR 0x0D,
                         CHR 0x1C, CHR 0x1D, CHR 0x1E, CHR 0x1F, CHR 0x20])"

definition strip :: "string \<Rightarrow> string" where
  "strip s = rev (dropWhile isspace (rev (dropWhile isspace s)))"

text \<open>\<^verbatim>\<open>xs[i]\<close> for a non-negative literal index: out of range raises \<^verbatim>\<open>IndexError\<close>.\<close>

definition getitem :: "'a list \<Rightarrow> nat \<Rightarrow> exc + 'a" where
  "getitem xs i = (if i < length xs then Inr (xs ! i) else Inl IndexError)"

text \<open>
  Python's builtins \<^verbatim>\<open>int(s)\<close> and \<^verbatim>\<open>float(s)\<close> on a string are parameters of the model,
  \<open>py_int\<close> and \<open>py_float\<close>: \<open>None\<close> is the string they reject with \<^verbatim>\<open>ValueError\<close>.
\<close>

definition int_field :: "(string \<Rightarrow> int option) \<Rightarrow> string list \<Rightarrow> nat \<Rightarrow> exc + int" where
  "int_field py_int linearray k =
     and_then (getitem linearray k)
       (\<lambda>s. case py_int s of None \<Rightarrow> Inl ValueError | Some n \<Rightarrow> Inr n)"

definition float_field :: "(string \<Rightarrow> real option) \<Rightarrow> string list \<Rightarrow> nat \<Rightarrow> exc + real" where
  "float_field py_float linearray k =
     and_then (getitem linearray k)
       (\<lambda>s. case py_float s of None \<Rightarrow> Inl ValueError | Some r \<Rightarrow> Inr r)"

text \<open>The \<^verbatim>\<open>else\<close> branch of the loop body (lines 43--70): one data row to one command.\<close>

definition parse_row ::
  "(string \<Rightarrow> int option) \<Rightarrow> (string \<Rightarrow> real option) \<Rightarrow> string \<Rightarrow> exc + mav_command" where
  "parse_row py_int py_float line =
     (let linearray = str_split (CHR 0x09) line in
      and_then (int_field py_int linearray 1) (\<lambda>ln_currentwp.
      and_then (int_field py_int linearray 2) (\<lambda>ln_frame.
      and_then (int_field py_int linearray 3) (\<lambda>ln_command.
      and_then (float_field py_float linearray 4) (\<lambda>ln_param1.
      and_then (float_field py_float linearray 5) (\<lambda>ln_param2.
      and_then (float_field py_float linearray 6) (\<lambda>ln_param3.
      and_then (float_field py_float linearray 7) (\<lambda>ln_param4.
      and_then (float_field py_float linearray 8) (\<lambda>ln_param5.
      and_then (float_field py_float linearray 9) (\<lambda>ln_param6.
      and_then (float_field py_float linearray 10) (\<lambda>ln_param7.
      and_then (and_then (getitem linearray 11)
                  (\<lambda>s. case py_int (strip s) of None \<Rightarrow> Inl ValueError | Some n \<Rightarrow> Inr n))
        (\<lambda>ln_autocontinue.
        Inr \<lparr>target_system = 0, target_component = 0, seq = 0,
             frame = ln_frame, command = ln_command, current = ln_currentwp,
             autocontinue = ln_autocontinue,
             param1 = ln_param1, param2 = ln_param2, param3 = ln_param3,
             param4 = ln_param4, cmd_x = ln_param5, cmd_y = ln_param6,
             cmd_z = ln_param7\<rparr>))))))))))))"

text \<open>
  The loop \<^verbatim>\<open>for i, line in enumerate(f)\<close> with the list built so far. A raise leaves the
  function without a list.
\<close>

fun readmission_loop ::
  "(string \<Rightarrow> int option) \<Rightarrow> (string \<Rightarrow> real option) \<Rightarrow> nat \<Rightarrow> string list \<Rightarrow>
   mav_command list \<Rightarrow> exc + mav_command list" where
  "readmission_loop py_int py_float i [] missionlist = Inr missionlist"
| "readmission_loop py_int py_float i (line # f) missionlist =
     (if i = 0 then
        (if \<not> startswith line ''QGC WPL 110''
         then Inl (Exception ''File is not supported WP version'')
         else readmission_loop py_int py_float (Suc i) f missionlist)
      else
        (case parse_row py_int py_float line of
           Inl e \<Rightarrow> Inl e
         | Inr cmd \<Rightarrow> readmission_loop py_int py_float (Suc i) f (missionlist @ [cmd])))"

definition readmission ::
  "(string \<Rightarrow> int option) \<Rightarrow> (string \<Rightarrow> real option) \<Rightarrow> string list \<Rightarrow>
   exc + mav_command list" where
  "readmission py_int py_float f = readmission_loop py_int py_float 0 f []"

section \<open>The vehicle link and the target provider\<close>

text \<open>
  The \<^verbatim>\<open>dronekit\<close> vehicle is an external object. The model holds what each attribute
  read of the handler gives at the moment of the call: \<open>Inl\<close> when the read raises.
  Values that the link leaves unset until the first message arrives are \<open>None\<close>.
\<close>

record location =
  loc_lat :: "real option"
  loc_lon :: "real option"

record attitude_info =
  att_pitch :: "real option"
  att_yaw :: "real option"
  att_roll :: "real option"

record battery_info =
  voltage :: "real option"

record gps_info =
  eph :: "int option"
  epv :: "int option"
  fix_type :: "int option"
  satellites_visible :: "int option"

text \<open>
  A parameter value as a request supplies it: a string, a number already, or \<open>PNone\<close>:
  \<^verbatim>\<open>None\<close>, standing for the values on which \<^verbatim>\<open>float\<close> raises \<^verbatim>\<open>TypeError\<close>.
\<close>

datatype pval = PStr string | PFloat real | PNone

text \<open>
  What the blocking arm request of the link does: it returns; or the vehicle does not arm
  within the timeout and the link raises the exception it signals a timeout with; or it
  fails otherwise, raising.
\<close>

datatype arm_outcome = ArmReturns | ArmTimesOut exc | ArmRaises exc

text \<open>
  Modelled from the spec: the classes behind \<^verbatim>\<open>vehicle.parameters\<close> and \<^verbatim>\<open>vehicle.arm\<close>
  are not in the repository. The parameters are a mapping from key to float with get and
  set (\<open>Link.parameters.{get, set}\<close>). \<open>parameters_write key value\<close> is what the link does
  with a value it is handed: it raises, or it stores a float for it, which float being the
  link's affair. A read of a missing key raises \<^verbatim>\<open>KeyError\<close>.
  \<open>arm_endpoint wait timeout\<close> is the outcome of the arm request; \<open>arm_calls\<close> logs the
  requests the link has received.
\<close>

record vehicle_link =
  location_global_relative_frame :: "exc + location"
  attitude :: "exc + attitude_info"
  vehicle_battery :: "exc + battery_info option"
  groundspeed :: "exc + real option"
  gps_0 :: "exc + gps_info"
  vehicle_mode :: "exc + string"
  vehicle_armed :: "exc + bool"
  is_armable :: "exc + bool"
  system_status_state :: "exc + string"
  parameters :: "string \<rightharpoonup> real"
  parameters_write :: "string \<Rightarrow> pval \<Rightarrow> exc + real"
  arm_endpoint :: "bool \<Rightarrow> nat \<Rightarrow> arm_outcome"
  arm_calls :: "(bool \<times> nat) list"

text \<open>
  Modelled from the spec: \<^verbatim>\<open>gs.interop.get_data("ugv")\<close> is not in the repository. The
  target provider raises, or returns a well-formed reply whose \<^verbatim>\<open>"result"\<close> holds the drop
  point \<^verbatim>\<open>{"drop": {"latitude": .., "longitude": ..}}\<close>; so line 156 cannot fail after line
  155 and the two act as one assignment.
\<close>

record drop_target =
  drop_latitude :: real
  drop_longitude :: real

record groundstation =
  interop_get_data_ugv :: "exc + drop_target"

record config_data =
  ugv_telemetry_port :: string
  ugv_telemetry_serial :: bool

section \<open>The handler\<close>

text \<open>\<^verbatim>\<open>self.mode\<close> holds a \<^verbatim>\<open>VehicleMode\<close> object, or its name after \<^verbatim>\<open>get_flight_mode\<close>.\<close>

datatype mode_field = VehicleMode string | ModeName string

record handler =
  gs :: groundstation
  config :: config_data
  port :: string
  serial :: bool
  update_thread :: "unit option"
  vehicle :: "vehicle_link option"
  yaw :: "real option"
  ground_speed :: "real option"
  droppos :: "drop_target option"
  dest :: "(drop_target \<times> real) option"
  dist_to_dest :: "real option"
  battery :: "real option"
  lat :: "real option"
  lon :: "real option"
  connection :: "int option list option"
  mode :: mode_field
  gps :: "gps_info option"
  commands :: "mav_command list"
  armed :: bool
  status :: string

definition BAUDRATE :: nat where
  "BAUDRATE = 57600"

definition mph :: real where
  "mph = 2.23694"

definition wait_for :: "string list" where
  "wait_for = [''gps_0'', ''armed'', ''mode'', ''attitude'']"

text \<open>\<^verbatim>\<open>UGVHandler.__init__\<close> (the logger and the prints are not modelled).\<close>

definition init :: "groundstation \<Rightarrow> config_data \<Rightarrow> handler" where
  "init g c =
     \<lparr>gs = g, config = c,
      port = ugv_telemetry_port c, serial = ugv_telemetry_serial c,
      update_thread = None, vehicle = None,
      yaw = None, ground_speed = None, droppos = None, dest = None,
      dist_to_dest = None, battery = None, lat = None, lon = None,
      connection = None, mode = VehicleMode ''MANUAL'', gps = None,
      commands = [], armed = False, status = ''BOOT''\<rparr>"

subsection \<open>\<^verbatim>\<open>update\<close>\<close>

text \<open>
  \<^verbatim>\<open>update\<close> assigns the fields of \<^verbatim>\<open>self\<close> one by one inside a single \<^verbatim>\<open>try\<close>. Each stage
  returns what the body raised, if anything, and the handler as the assignments made so
  far have left it.
\<close>

text \<open>Lines 157--166: the distance to the target, then mode and armed.\<close>

definition update_distance :: "vehicle_link \<Rightarrow> handler \<Rightarrow> (exc + unit) \<times> handler" where
  "update_distance v s =
     (case droppos s of
        None \<Rightarrow> (Inl TypeError, s)
      | Some d \<Rightarrow>
     (case lat s of
        None \<Rightarrow> (Inl TypeError, s)
      | Some la \<Rightarrow>
     (case lon s of
        None \<Rightarrow> (Inl TypeError, s)
      | Some lo \<Rightarrow>
        (let x_dist = drop_latitude d - la;
             y_dist = drop_longitude d - lo;
             x_dist_ft = x_dist * (cos (la * pi / 180) * 69.172) * 5280;
             y_dist_ft = y_dist * 69.172 * 5280;
             dist = sqrt (x_dist_ft ^ 2 + y_dist_ft ^ 2);
             s1 = s\<lparr>dist_to_dest := Some dist\<rparr>;
             s2 = s1\<lparr>dest := Some (d, dist)\<rparr>
         in (case vehicle_mode v of
               Inl e \<Rightarrow> (Inl e, s2)
             | Inr m \<Rightarrow>
            (case vehicle_armed v of
               Inl e \<Rightarrow> (Inl e, s2\<lparr>mode := VehicleMode m\<rparr>)
             | Inr a \<Rightarrow> (Inr (), s2\<lparr>mode := VehicleMode m, armed := a\<rparr>)))))))"

text \<open>Lines 154--156: the target is fetched only while none is cached.\<close>

definition update_target :: "vehicle_link \<Rightarrow> handler \<Rightarrow> (exc + unit) \<times> handler" where
  "update_target v s =
     (case droppos s of
        Some d \<Rightarrow> update_distance v s
      | None \<Rightarrow>
          (case interop_get_data_ugv (gs s) of
             Inl e \<Rightarrow> (Inl e, s)
           | Inr d \<Rightarrow> update_distance v (s\<lparr>droppos := Some d\<rparr>)))"

text \<open>Lines 147--153: ground speed, battery, position, GPS and mode.\<close>

definition update_telemetry ::
  "vehicle_link \<Rightarrow> location \<Rightarrow> battery_info option \<Rightarrow> handler \<Rightarrow> (exc + unit) \<times> handler" where
  "update_telemetry v loc bat s =
     (case groundspeed v of
        Inl e \<Rightarrow> (Inl e, s)
      | Inr None \<Rightarrow> (Inl TypeError, s)
      | Inr (Some g) \<Rightarrow>
        (let s1 = s\<lparr>ground_speed := Some (g * mph)\<rparr> in
         (case bat of
            None \<Rightarrow> (Inl AttributeError, s1)
          | Some b \<Rightarrow>
            (let s2 = s1\<lparr>battery := voltage b, lat := loc_lat loc, lon := loc_lon loc\<rparr> in
             (case gps_0 v of
                Inl e \<Rightarrow> (Inl e, s2)
              | Inr g0 \<Rightarrow>
                (let s3 = s2\<lparr>gps := Some g0,
                              connection := Some [eph g0, epv g0, satellites_visible g0]\<rparr> in
                 (case vehicle_mode v of
                    Inl e \<Rightarrow> (Inl e, s3)
                  | Inr m \<Rightarrow> update_target v (s3\<lparr>mode := VehicleMode m\<rparr>))))))))"

text \<open>
  Lines 145--146: radians to degrees, and 360 added once to a negative value. This is the
  computation in exact arithmetic, as everywhere in \<open>update\<close>.
\<close>

definition yaw_degrees :: "real \<Rightarrow> real" where
  "yaw_degrees y = (let d = y * 180 / pi in d + (if d < 0 then 360 else 0))"

text \<open>
  The same two lines as the machine runs them: \<open>rnd\<close> rounds the exact result of each
  floating-point operation to a double, and \<open>pi_d\<close> is the double \<^verbatim>\<open>math.pi\<close>. Adding 0 to a
  double is exact. \<open>rounding\<close> holds what is used of a rounding: it is monotone, it keeps
  360 (a double), and on results up to 1000 in size it is off by at most
  \<open>(\<bar>x\<bar> + 1) / 10\<^sup>1\<^sup>5\<close> (rounding to the nearest double is off by at most
  \<open>\<bar>x\<bar> / 2\<^sup>5\<^sup>3\<close>, and by less than \<open>10\<^sup>-\<^sup>3\<^sup>0\<^sup>0\<close> on the subnormal numbers).
\<close>

definition yaw_degrees_rounded :: "(real \<Rightarrow> real) \<Rightarrow> real \<Rightarrow> real \<Rightarrow> real" where
  "yaw_degrees_rounded rnd pi_d y =
     (let d = rnd (rnd (y * 180) / pi_d) in if d < 0 then rnd (d + 360) else d)"

definition rounding :: "(real \<Rightarrow> real) \<Rightarrow> bool" where
  "rounding rnd =
     ((\<forall>x x'. x \<le> x' \<longrightarrow> rnd x \<le> rnd x') \<and> rnd 360 = 360
      \<and> (\<forall>x. \<bar>x\<bar> \<le> 1000 \<longrightarrow> \<bar>rnd x - x\<bar> \<le> (\<bar>x\<bar> + 1) / 10 ^ 15))"

text \<open>Lines 142--166, the body of the \<^verbatim>\<open>try\<close>: the three reads come before any assignment.\<close>

definition update_body :: "handler \<Rightarrow> (exc + unit) \<times> handler" where
  "update_body s =
     (case vehicle s of
        None \<Rightarrow> (Inl AttributeError, s)
      | Some v \<Rightarrow>
     (case location_global_relative_frame v of
        Inl e \<Rightarrow> (Inl e, s)
      | Inr loc \<Rightarrow>
     (case attitude v of
        Inl e \<Rightarrow> (Inl e, s)
      | Inr rpy \<Rightarrow>
     (case vehicle_battery v of
        Inl e \<Rightarrow> (Inl e, s)
      | Inr bat \<Rightarrow>
     (case att_yaw rpy of
        None \<Rightarrow> (Inl TypeError, s)
      | Some y \<Rightarrow> update_telemetry v loc bat (s\<lparr>yaw := Some (yaw_degrees y)\<rparr>))))))"

text \<open>\<^verbatim>\<open>except Exception as e: raise GeneralError(str(e)) from e\<close>.\<close>

definition update :: "handler \<Rightarrow> (exc + unit) \<times> handler" where
  "update s =
     (case update_body s of
        (Inl e, s') \<Rightarrow> (Inl (GeneralError e), s')
      | (Inr u, s') \<Rightarrow> (Inr u, s'))"

text \<open>
  The distance formula as the specification words it: the cosine of the latitude scales
  the east-west (longitude) difference.
\<close>

definition spec_distance :: "real \<Rightarrow> real \<Rightarrow> real \<Rightarrow> real \<Rightarrow> real" where
  "spec_distance targetLat targetLon la lo =
     (let dx_ft = (targetLon - lo) * cos (la * pi / 180) * 69.172 * 5280;
          dy_ft = (targetLat - la) * 69.172 * 5280
      in sqrt (dx_ft ^ 2 + dy_ft ^ 2))"

subsection \<open>\<^verbatim>\<open>connect\<close>\<close>

text \<open>
  \<^verbatim>\<open>dronekit.connect\<close> is the parameter \<open>dk_connect port wait_ready baud\<close>: it raises or
  returns the new link. The assignment to \<^verbatim>\<open>self.vehicle\<close> happens only when it returns;
  \<^verbatim>\<open>update\<close> then runs on the handler that holds the link.
\<close>

definition connect ::
  "(string \<Rightarrow> string list \<Rightarrow> nat option \<Rightarrow> exc + vehicle_link) \<Rightarrow> handler \<Rightarrow>
   (exc + unit) \<times> handler" where
  "connect dk_connect s =
     (case (if serial s then dk_connect (port s) wait_for (Some BAUDRATE)
            else dk_connect (port s) wait_for None) of
        Inl e \<Rightarrow> (Inl (GeneralError e), s)
      | Inr v \<Rightarrow>
          (case update (s\<lparr>vehicle := Some v\<rparr>) of
             (Inl e, s') \<Rightarrow> (Inl (GeneralError e), s')
           | (Inr u, s') \<Rightarrow> (Inr (), s')))"

subsection \<open>\<^verbatim>\<open>quick\<close>, \<^verbatim>\<open>get_armed\<close>, \<^verbatim>\<open>stats\<close>, \<^verbatim>\<open>get_flight_mode\<close>\<close>

text \<open>The payload under \<^verbatim>\<open>"result"\<close>, one field per key of the dictionary.\<close>

record quick_result =
  result_yaw :: "real option"
  result_lat :: "real option"
  result_lon :: "real option"
  result_ground_speed :: "real option"
  result_battery :: "real option"
  result_destination :: "(drop_target \<times> real) option"
  result_connection :: "int option list option"

definition quick :: "handler \<Rightarrow> quick_result" where
  "quick s =
     \<lparr>result_yaw = yaw s, result_lat = lat s, result_lon = lon s,
      result_ground_speed = ground_speed s, result_battery = battery s,
      result_destination = dest s, result_connection = connection s\<rparr>"

definition get_armed :: "handler \<Rightarrow> exc + string" where
  "get_armed s =
     (case vehicle s of
        None \<Rightarrow> Inl (GeneralError AttributeError)
      | Some v \<Rightarrow>
     (case vehicle_armed v of
        Inl e \<Rightarrow> Inl (GeneralError e)
      | Inr a \<Rightarrow>
          if a then Inr ''ARMED''
          else (case is_armable v of
                  Inl e \<Rightarrow> Inl (GeneralError e)
                | Inr b \<Rightarrow>
                    if b then Inr ''DISARMED (ARMABLE)''
                    else Inr ''DISARMED (NOT ARMABLE)'')))"

record 'd stats_result =
  stats_quick :: quick_result
  stats_mode :: string
  stats_commands :: "'d list"
  stats_armed :: string
  stats_status :: string

text \<open>
  \<^verbatim>\<open>stats\<close> has no \<^verbatim>\<open>try\<close>: what its expressions raise leaves it unwrapped. The dictionary's
  values are evaluated in the order written. \<^verbatim>\<open>cmd.to_dict()\<close> is the parameter \<open>to_dict\<close>.
\<close>

definition stats :: "(mav_command \<Rightarrow> 'd) \<Rightarrow> handler \<Rightarrow> exc + 'd stats_result" where
  "stats to_dict s =
     (case mode s of
        ModeName n \<Rightarrow> Inl AttributeError
      | VehicleMode n \<Rightarrow>
     (case get_armed s of
        Inl e \<Rightarrow> Inl e
      | Inr a \<Rightarrow>
     (case vehicle s of
        None \<Rightarrow> Inl AttributeError
      | Some v \<Rightarrow>
     (case system_status_state v of
        Inl e \<Rightarrow> Inl e
      | Inr st \<Rightarrow>
          Inr \<lparr>stats_quick = quick s, stats_mode = n,
               stats_commands = map to_dict (commands s),
               stats_armed = a, stats_status = st\<rparr>))))"

definition get_flight_mode :: "handler \<Rightarrow> (exc + string) \<times> handler" where
  "get_flight_mode s =
     (case vehicle s of
        None \<Rightarrow> (Inl (GeneralError AttributeError), s)
      | Some v \<Rightarrow>
          (case vehicle_mode v of
             Inl e \<Rightarrow> (Inl (GeneralError e), s)
           | Inr n \<Rightarrow> (Inr n, s\<lparr>mode := ModeName n\<rparr>)))"

subsection \<open>Parameters\<close>

text \<open>
  Modelled from the spec: the decorator \<^verbatim>\<open>wait_for_param_load\<close> is not in the repository.
  It blocks until the link's initial parameter set has finished loading and then runs the
  method. \<open>ready\<close> says whether that ever happens; \<open>None\<close> is a call that never returns.
\<close>

definition wait_for_param_load :: "bool \<Rightarrow> 'a \<Rightarrow> 'a option" where
  "wait_for_param_load ready body = (if ready then Some body else None)"

text \<open>
  \<^verbatim>\<open>float(value)\<close>: \<^verbatim>\<open>ValueError\<close> on a string that is no number, \<^verbatim>\<open>TypeError\<close> on
  \<^verbatim>\<open>None\<close>.
\<close>

definition float_of :: "(string \<Rightarrow> real option) \<Rightarrow> pval \<Rightarrow> exc + real" where
  "float_of py_float value =
     (case value of
        PFloat r \<Rightarrow> Inr r
      | PStr str \<Rightarrow> (case py_float str of None \<Rightarrow> Inl ValueError | Some r \<Rightarrow> Inr r)
      | PNone \<Rightarrow> Inl TypeError)"

text \<open>
  \<^verbatim>\<open>self.vehicle.parameters[key] = value\<close>: the link is handed the value as it was
  supplied.
\<close>

definition parameters_setitem :: "handler \<Rightarrow> string \<Rightarrow> pval \<Rightarrow> (exc + unit) \<times> handler" where
  "parameters_setitem s key value =
     (case vehicle s of
        None \<Rightarrow> (Inl AttributeError, s)
      | Some v \<Rightarrow>
          (case parameters_write v key value of
             Inl e \<Rightarrow> (Inl e, s)
           | Inr r \<Rightarrow>
               (Inr (), s\<lparr>vehicle := Some (v\<lparr>parameters := (parameters v)(key \<mapsto> r)\<rparr>)\<rparr>)))"

definition get_param :: "bool \<Rightarrow> handler \<Rightarrow> string \<Rightarrow> (exc + real) option" where
  "get_param ready s key =
     wait_for_param_load ready
       (case vehicle s of
          None \<Rightarrow> Inl (GeneralError AttributeError)
        | Some v \<Rightarrow>
            (case parameters v key of
               None \<Rightarrow> Inl (GeneralError (KeyError key))
             | Some value \<Rightarrow> Inr value))"

text \<open>
  \<^verbatim>\<open>set_param\<close>: the validation stands in a \<^verbatim>\<open>try\<close> of its own, before the one around the
  write, so its \<^verbatim>\<open>InvalidRequestError\<close> leaves the method as it is. Its \<^verbatim>\<open>except\<close> names
  \<^verbatim>\<open>ValueError\<close> only: anything else \<^verbatim>\<open>float\<close> raises leaves the method unchanged.
\<close>

definition set_param ::
  "bool \<Rightarrow> (string \<Rightarrow> real option) \<Rightarrow> handler \<Rightarrow> string \<Rightarrow> pval \<Rightarrow>
   ((exc + unit) \<times> handler) option" where
  "set_param ready py_float s key value =
     wait_for_param_load ready
       (case float_of py_float value of
          Inl e \<Rightarrow>
            (Inl (if e = ValueError
                  then InvalidRequestError ''Parameter Value cannot be converted to float''
                  else e), s)
        | Inr r \<Rightarrow>
            (case parameters_setitem s key value of
               (Inl e, s') \<Rightarrow> (Inl (GeneralError e), s')
             | (Inr u, s') \<Rightarrow> (Inr (), s')))"

text \<open>
  \<^verbatim>\<open>set_params\<close>: one loop over \<^verbatim>\<open>kwargs.items()\<close> (the pairs in the order given), each
  value checked and then written before the next pair is looked at. The loop stands
  inside the outer \<^verbatim>\<open>try\<close>, whose \<^verbatim>\<open>except Exception\<close> also catches the
  \<^verbatim>\<open>InvalidRequestError\<close> raised in it.
\<close>

fun set_params_loop ::
  "(string \<Rightarrow> real option) \<Rightarrow> handler \<Rightarrow> (string \<times> pval) list \<Rightarrow> (exc + unit) \<times> handler" where
  "set_params_loop py_float s [] = (Inr (), s)"
| "set_params_loop py_float s ((key, value) # kwargs) =
     (case float_of py_float value of
        Inl e \<Rightarrow>
          (Inl (if e = ValueError
                then InvalidRequestError ''Parameter Value cannot be converted to float''
                else e), s)
      | Inr r \<Rightarrow>
          (case parameters_setitem s key value of
             (Inl e, s') \<Rightarrow> (Inl e, s')
           | (Inr u, s') \<Rightarrow> set_params_loop py_float s' kwargs))"

definition set_params ::
  "bool \<Rightarrow> (string \<Rightarrow> real option) \<Rightarrow> handler \<Rightarrow> (string \<times> pval) list \<Rightarrow>
   ((exc + unit) \<times> handler) option" where
  "set_params ready py_float s kwargs =
     wait_for_param_load ready
       (case set_params_loop py_float s kwargs of
          (Inl e, s') \<Rightarrow> (Inl (GeneralError e), s')
        | (Inr u, s') \<Rightarrow> (Inr (), s'))"

subsection \<open>\<^verbatim>\<open>arm\<close>\<close>




section \<open>Concrete inputs\<close>

text \<open>\<^verbatim>\<open>float\<close> on the two strings of the examples: \<^verbatim>\<open>float("3.14")\<close> is 3.14, and
  \<^verbatim>\<open>float("not-a-number")\<close> raises \<^verbatim>\<open>ValueError\<close>.\<close>

definition example_float :: "string \<Rightarrow> real option" where
  "example_float str = (if str = ''3.14'' then Some 3.14 else None)"

text \<open>
  A link that answers every read (the vehicle at 60 degrees north on the prime meridian,
  heading north) and stores for a value the float that \<^verbatim>\<open>float\<close> makes of it, a target
  provider whose drop point lies one degree further north, and the handler built from
  them.
\<close>

definition example_link :: vehicle_link where
  "example_link =
     \<lparr>location_global_relative_frame = Inr \<lparr>loc_lat = Some 60, loc_lon = Some 0\<rparr>,
      attitude = Inr \<lparr>att_pitch = Some 0, att_yaw = Some 0, att_roll = Some 0\<rparr>,
      vehicle_battery = Inr (Some \<lparr>voltage = Some 12\<rparr>),
      groundspeed = Inr (Some 0),
      gps_0 = Inr \<lparr>eph = Some 100, epv = Some 100, fix_type = Some 3,
                   satellites_visible = Some 10\<rparr>,
      vehicle_mode = Inr ''MANUAL'',
      vehicle_armed = Inr False,
      is_armable = Inr True,
      system_status_state = Inr ''STANDBY'',
      parameters = Map.empty,
      parameters_write = (\<lambda>key value. float_of example_float value),
      arm_endpoint = (\<lambda>wait timeout. ArmReturns),
      arm_calls = []\<rparr>"

definition example_gs :: groundstation where
  "example_gs = \<lparr>interop_get_data_ugv = Inr \<lparr>drop_latitude = 61, drop_longitude = 0\<rparr>\<rparr>"

definition example_config :: config_data where
  "example_config = \<lparr>ugv_telemetry_port = ''/dev/ttyUSB0'', ugv_telemetry_serial = True\<rparr>"

definition example_handler :: handler where
  "example_handler = (init example_gs example_config)\<lparr>vehicle := Some example_link\<rparr>"

section \<open>Properties\<close>

lemma str_split_nonempty: "str_split sep s \<noteq> []"
  by (induction s) (auto split: list.splits)

lemmas update_defs =
  update_def update_body_def update_telemetry_def update_target_def update_distance_def

lemmas example_defs =
  example_handler_def example_link_def example_gs_def example_config_def init_def

lemma example_floats:
  "float_of example_float (PStr ''3.14'') = Inr 3.14"
  "float_of example_float (PStr ''not-a-number'') = Inl ValueError"
  "float_of example_float PNone = Inl TypeError"
  by (simp_all add: float_of_def example_float_def)

lemma vehicle_update_same: "vehicle s = Some v \<Longrightarrow> s\<lparr>vehicle := Some v\<rparr> = s"
  by (cases s) simp

subsection \<open>What a refresh leaves alone\<close>





lemma update_distance_vehicle: "vehicle (snd (update_distance v s)) = vehicle s"
  by (simp add: update_distance_def Let_def split: option.splits sum.splits)

lemma update_target_vehicle: "vehicle (snd (update_target v s)) = vehicle s"
  by (simp add: update_target_def update_distance_vehicle split: option.splits sum.splits)

lemma update_telemetry_vehicle: "vehicle (snd (update_telemetry v loc bat s)) = vehicle s"
  by (simp add: update_telemetry_def Let_def update_target_vehicle
      split: option.splits sum.splits)

lemma update_body_vehicle: "vehicle (snd (update_body s)) = vehicle s"
  by (simp add: update_body_def update_telemetry_vehicle split: option.splits sum.splits)

lemma update_distance_yaw: "yaw (snd (update_distance v s)) = yaw s"
  by (simp add: update_distance_def Let_def split: option.splits sum.splits)

lemma update_target_yaw: "yaw (snd (update_target v s)) = yaw s"
  by (simp add: update_target_def update_distance_yaw split: option.splits sum.splits)

lemma update_telemetry_yaw: "yaw (snd (update_telemetry v loc bat s)) = yaw s"
  by (simp add: update_telemetry_def Let_def update_target_yaw
      split: option.splits sum.splits)

lemma update_snd: "snd (update s) = snd (update_body s)"
  by (cases "update_body s") (auto simp: update_def split: sum.splits)

lemma update_vehicle: "vehicle (snd (update s)) = vehicle s"
  by (simp add: update_snd update_body_vehicle)


subsection \<open>C1: the distance to the target\<close>

text \<open>
  C1. The claim puts the cosine factor on the longitude difference. The source computes
  \<^verbatim>\<open>x_dist\<close> from the latitudes and multiplies that by the cosine. With the vehicle at
  (60, 0) and the target at (61, 0) the refresh succeeds and stores 182614.08 feet, half
  of the 365228.16 feet of the specification's formula.
\<close>

theorem update_distance_at_60N:
  "fst (update example_handler) = Inr ()
   \<and> dist_to_dest (snd (update example_handler)) = Some 182614.08
   \<and> spec_distance 61 0 60 0 = 365228.16"
  by (simp add: update_defs yaw_degrees_def example_defs spec_distance_def Let_def cos_60)

subsection \<open>C2: a refresh that fails\<close>



lemma update_distance_droppos: "droppos (snd (update_distance v s)) = droppos s"
  by (simp add: update_distance_def Let_def split: option.splits sum.splits)





subsection \<open>C3: the stored yaw\<close>

lemma yaw_degrees_range:
  assumes "- pi \<le> y" "y \<le> pi"
  shows "0 \<le> yaw_degrees y \<and> yaw_degrees y \<le> 360"
proof -
  have p: "0 < pi" by simp
  have a: "- 180 \<le> y * 180 / pi"
    using assms(1) p by (simp add: field_simps)
  have b: "y * 180 / pi \<le> 180"
    using assms(2) p by (simp add: field_simps)
  show ?thesis
    using a b by (simp add: yaw_degrees_def Let_def)
qed

lemma yaw_degrees_rounded_range:
  assumes r: "rounding rnd" and pd: "\<bar>pi_d - pi\<bar> \<le> 1 / 10 ^ 15"
    and y: "- pi \<le> y" "y \<le> pi"
  shows "0 \<le> yaw_degrees_rounded rnd pi_d y \<and> yaw_degrees_rounded rnd pi_d y \<le> 360"
proof -
  have mono: "\<And>x x'. x \<le> x' \<Longrightarrow> rnd x \<le> rnd x'"
    and r360: "rnd 360 = 360"
    and err: "\<And>x. \<bar>x\<bar> \<le> 1000 \<Longrightarrow> \<bar>rnd x - x\<bar> \<le> (\<bar>x\<bar> + 1) / 10 ^ 15"
    using r by (auto simp: rounding_def)
  have pi2: "2 \<le> pi" by (rule pi_ge_two)
  have pi4: "pi < 4" by (rule pi_less_4)
  have ya: "\<bar>y\<bar> \<le> pi" using y by (simp add: abs_le_iff)
  define a where "a = rnd (y * 180)"
  define q where "q = a / pi_d"
  define d where "d = rnd q"
  have a1: "\<bar>y * 180\<bar> \<le> 180 * pi"
    using ya by (simp add: abs_mult)
  have a2: "\<bar>y * 180\<bar> \<le> 1000" using a1 pi4 by linarith
  have a3: "\<bar>a - y * 180\<bar> \<le> 1 / 10 ^ 11"
  proof -
    have "\<bar>a - y * 180\<bar> \<le> (\<bar>y * 180\<bar> + 1) / 10 ^ 15"
      unfolding a_def using a2 by (rule err)
    also have "\<dots> \<le> 1001 / 10 ^ 15" using a2 by (simp add: divide_right_mono)
    also have "\<dots> \<le> 1 / 10 ^ 11" by simp
    finally show ?thesis .
  qed
  have a4: "\<bar>a\<bar> \<le> 180 * pi + 1 / 10 ^ 11" using a1 a3 by linarith
  have pd1: "pi - 1 / 10 ^ 15 \<le> pi_d" using pd by linarith
  have pd0: "0 < pi_d" using pd1 pi2 by simp
  have a5: "\<bar>a\<bar> \<le> 181 * pi_d"
  proof -
    have "180 * pi + 1 / 10 ^ 11 \<le> 181 * (pi - 1 / 10 ^ 15)" using pi2 by simp
    also have "\<dots> \<le> 181 * pi_d" using pd1 by simp
    finally show ?thesis using a4 by linarith
  qed
  have q1: "\<bar>q\<bar> \<le> 181"
    unfolding q_def using a5 pd0 by (simp add: abs_divide field_simps)
  have d1: "\<bar>d - q\<bar> \<le> 1 / 10 ^ 12"
  proof -
    have "\<bar>q\<bar> \<le> 1000" using q1 by linarith
    then have "\<bar>d - q\<bar> \<le> (\<bar>q\<bar> + 1) / 10 ^ 15" unfolding d_def by (rule err)
    also have "\<dots> \<le> 182 / 10 ^ 15" using q1 by (simp add: divide_right_mono)
    also have "\<dots> \<le> 1 / 10 ^ 12" by simp
    finally show ?thesis .
  qed
  have e12: "(1::real) / 10 ^ 12 \<le> 1" by simp
  have d2: "\<bar>d\<bar> \<le> 182" using q1 d1 e12 by linarith
  have res: "yaw_degrees_rounded rnd pi_d y = (if d < 0 then rnd (d + 360) else d)"
    by (simp add: yaw_degrees_rounded_def Let_def d_def q_def a_def)
  show ?thesis
  proof (cases "d < 0")
    case True
    have u: "rnd (d + 360) \<le> 360"
      using mono [of "d + 360" 360] True r360 by simp
    have b: "\<bar>d + 360\<bar> \<le> 1000" using d2 by linarith
    then have "\<bar>rnd (d + 360) - (d + 360)\<bar> \<le> (\<bar>d + 360\<bar> + 1) / 10 ^ 15" by (rule err)
    also have "\<dots> \<le> 1001 / 10 ^ 15" using b by (simp add: divide_right_mono)
    also have "\<dots> \<le> 1" by simp
    finally have "\<bar>rnd (d + 360) - (d + 360)\<bar> \<le> 1" .
    then have l: "0 \<le> rnd (d + 360)" using d2 by linarith
    show ?thesis using True u l by (simp add: res)
  next
    case False
    then have "0 \<le> d" "d \<le> 360" using d2 by linarith+
    with False show ?thesis by (simp add: res)
  qed
qed

lemma rounding_exact: "rounding (\<lambda>x. x)"
  by (simp add: rounding_def)

lemma yaw_degrees_rounded_exact: "yaw_degrees_rounded (\<lambda>x. x) pi y = yaw_degrees y"
  by (simp add: yaw_degrees_rounded_def yaw_degrees_def Let_def)

lemma update_yaw:
  assumes "vehicle s = Some v" "location_global_relative_frame v = Inr loc"
    "attitude v = Inr rpy" "vehicle_battery v = Inr bat" "att_yaw rpy = Some y"
  shows "yaw (snd (update s)) = Some (yaw_degrees y)"
  using assms by (simp add: update_snd update_body_def update_telemetry_yaw)

text \<open>
  C3, as amended. Once the three reads have succeeded and the link has a yaw \<open>y\<close>, the
  refresh stores the yaw in degrees, whatever happens later in it. For a raw yaw in the
  link's range, from \<open>-\<pi>\<close> to \<open>\<pi>\<close> radians, the stored value lies in the closed interval
  from 0 to 360. The bound 360 is reached on the machine: a negative yaw too small to
  change 360 when added to it is stored as 360.0. The statement holds of the exact
  computation, which \<open>update\<close> stores, and of the rounded one, for every rounding as
  \<open>rounding\<close> describes it and every \<open>pi_d\<close> within \<open>10\<^sup>-\<^sup>1\<^sup>5\<close> of \<open>\<pi>\<close>.
\<close>

theorem update_yaw_range:
  assumes "vehicle s = Some v" "location_global_relative_frame v = Inr loc"
    "attitude v = Inr rpy" "vehicle_battery v = Inr bat" "att_yaw rpy = Some y"
    "- pi \<le> y" "y \<le> pi"
  shows "yaw (snd (update s)) = Some (yaw_degrees y)
    \<and> 0 \<le> yaw_degrees y \<and> yaw_degrees y \<le> 360
    \<and> (rounding rnd \<and> \<bar>pi_d - pi\<bar> \<le> 1 / 10 ^ 15 \<longrightarrow>
         0 \<le> yaw_degrees_rounded rnd pi_d y \<and> yaw_degrees_rounded rnd pi_d y \<le> 360)"
  using update_yaw [OF assms(1-5)] yaw_degrees_range [OF assms(6,7)]
    yaw_degrees_rounded_range [OF _ _ assms(6,7), of rnd pi_d]
  by blast

text \<open>
  A raw yaw of -10 degrees is stored as 350 degrees (computed without rounding).
\<close>

theorem update_yaw_range_witness:
  "yaw (snd (update (example_handler\<lparr>vehicle := Some (example_link
        \<lparr>attitude := Inr \<lparr>att_pitch = Some 0, att_yaw = Some (- 10 * pi / 180),
                          att_roll = Some 0\<rparr>\<rparr>)\<rparr>))) = Some 350
   \<and> yaw_degrees_rounded (\<lambda>x. x) pi (- 10 * pi / 180) = 350"
proof -
  let ?rpy = "\<lparr>att_pitch = Some 0, att_yaw = Some (- 10 * pi / 180),
    att_roll = Some (0::real)\<rparr>"
  let ?v = "example_link\<lparr>attitude := Inr ?rpy\<rparr>"
  let ?s = "example_handler\<lparr>vehicle := Some ?v\<rparr>"
  have "- pi \<le> - 10 * pi / 180" "- 10 * pi / 180 \<le> pi"
    using pi_gt_zero by linarith+
  from update_yaw_range [of ?s ?v "\<lparr>loc_lat = Some 60, loc_lon = Some 0\<rparr>" ?rpy
      "Some \<lparr>voltage = Some 12\<rparr>" "- 10 * pi / 180" "\<lambda>x. x" pi, OF _ _ _ _ _ this]
  show ?thesis
    by (simp add: example_link_def yaw_degrees_def yaw_degrees_rounded_def rounding_def
        Let_def)
qed

text \<open>
  C3 as stated fails: a raw yaw of \<open>3\<pi>\<close> radians is stored as 540 degrees.
\<close>

theorem yaw_three_pi_counterexample:
  "yaw (snd (update (example_handler\<lparr>vehicle := Some (example_link
        \<lparr>attitude := Inr \<lparr>att_pitch = Some 0, att_yaw = Some (3 * pi),
                          att_roll = Some 0\<rparr>\<rparr>)\<rparr>))) = Some 540
   \<and> \<not> (540 \<le> (360::real))"
  by (simp add: update_defs yaw_degrees_def example_defs Let_def)

subsection \<open>C4: \<^verbatim>\<open>set_params\<close>\<close>

text \<open>What the accepted writes of a list of pairs make of the link's parameters.\<close>

lemma set_params_loop_prefix:
  assumes "vehicle s = Some v"
    and "\<forall>(key, value) \<in> set (takeWhile (\<lambda>(key, value). \<not> isl (float_of py_float value))
        kwargs). \<not> isl (parameters_write v key value)"
  shows "set_params_loop py_float s kwargs =
    ((case find (\<lambda>(key, value). isl (float_of py_float value)) kwargs of
        None \<Rightarrow> Inr ()
      | Some (key, value) \<Rightarrow>
          Inl (if projl (float_of py_float value) = ValueError
               then InvalidRequestError ''Parameter Value cannot be converted to float''
               else projl (float_of py_float value))),
     s\<lparr>vehicle := Some (v\<lparr>parameters :=
          fold (\<lambda>(key, value) m. m(key \<mapsto> projr (parameters_write v key value)))
            (takeWhile (\<lambda>(key, value). \<not> isl (float_of py_float value)) kwargs)
            (parameters v)\<rparr>)\<rparr>)"
  using assms
proof (induction kwargs arbitrary: s v)
  case Nil
  then show ?case by (simp add: vehicle_update_same)
next
  case (Cons kv kwargs)
  obtain key "value" where kv: "kv = (key, value)" by (cases kv)
  show ?case
  proof (cases "float_of py_float value")
    case (Inl x)
    with Cons.prems kv show ?thesis by (simp add: vehicle_update_same)
  next
    case (Inr r)
    obtain w where w: "parameters_write v key value = Inr w"
      using Cons.prems(2) kv Inr by (cases "parameters_write v key value") auto
    let ?v = "v\<lparr>parameters := (parameters v)(key \<mapsto> w)\<rparr>"
    let ?s = "s\<lparr>vehicle := Some ?v\<rparr>"
    have st: "parameters_setitem s key value = (Inr (), ?s)"
      using Cons.prems w by (simp add: parameters_setitem_def)
    have "vehicle ?s = Some ?v" by simp
    moreover have "\<forall>(key, value) \<in> set (takeWhile
        (\<lambda>(key, value). \<not> isl (float_of py_float value)) kwargs).
        \<not> isl (parameters_write ?v key value)"
      using Cons.prems(2) kv Inr by auto
    ultimately have "set_params_loop py_float ?s kwargs =
      ((case find (\<lambda>(key, value). isl (float_of py_float value)) kwargs of
          None \<Rightarrow> Inr ()
        | Some (key, value) \<Rightarrow>
            Inl (if projl (float_of py_float value) = ValueError
                 then InvalidRequestError ''Parameter Value cannot be converted to float''
                 else projl (float_of py_float value))),
       ?s\<lparr>vehicle := Some (?v\<lparr>parameters :=
          fold (\<lambda>(key, value) m. m(key \<mapsto> projr (parameters_write ?v key value)))
            (takeWhile (\<lambda>(key, value). \<not> isl (float_of py_float value)) kwargs)
            (parameters ?v)\<rparr>)\<rparr>)"
      by (rule Cons.IH)
    with Inr st kv w show ?thesis by (simp del: fun_upd_apply)
  qed
qed

text \<open>
  C4, as amended. With a vehicle connected whose link accepts the writes made,
  \<^verbatim>\<open>set_params\<close> returns, and the pairs are checked and written one at a time in the order
  given: the call succeeds exactly when every value passes \<^verbatim>\<open>float\<close>, and the link's
  parameters are the old ones overwritten by the pairs that stand before the first value
  that fails (all of them when none fails). That pair and the later ones are not written.
  The kind of the error is left open here.
\<close>

theorem set_params_applies_prefix:
  assumes "vehicle s = Some v"
    and "\<forall>(key, value) \<in> set (takeWhile (\<lambda>(key, value). \<not> isl (float_of py_float value))
        kwargs). \<not> isl (parameters_write v key value)"
  shows "\<exists>r. set_params True py_float s kwargs =
      Some (r, s\<lparr>vehicle := Some (v\<lparr>parameters :=
          fold (\<lambda>(key, value) m. m(key \<mapsto> projr (parameters_write v key value)))
            (takeWhile (\<lambda>(key, value). \<not> isl (float_of py_float value)) kwargs)
            (parameters v)\<rparr>)\<rparr>)
    \<and> (r = Inr ()) = list_all (\<lambda>(key, value). \<not> isl (float_of py_float value)) kwargs"
proof -
  have f: "(find (\<lambda>(key, value). isl (float_of py_float value)) kwargs = None)
    = list_all (\<lambda>(key, value). \<not> isl (float_of py_float value)) kwargs"
    by (auto simp: find_None_iff list_all_iff)
  show ?thesis
    using set_params_loop_prefix [OF assms] f
    by (auto simp: set_params_def wait_for_param_load_def split: option.splits)
qed

text \<open>
  Three pairs, the second not a number: only the first is written, and the call fails.
\<close>

theorem set_params_applies_prefix_witness:
  "\<exists>r. set_params True example_float example_handler
      [(''A'', PStr ''3.14''), (''B'', PStr ''not-a-number''), (''C'', PStr ''3.14'')]
     = Some (r, example_handler\<lparr>vehicle :=
                  Some (example_link\<lparr>parameters := [''A'' \<mapsto> 3.14]\<rparr>)\<rparr>)
     \<and> r \<noteq> Inr ()"
proof -
  have a: "vehicle example_handler = Some example_link"
    by (simp add: example_handler_def)
  have w: "parameters_write example_link = (\<lambda>key value. float_of example_float value)"
    by (simp add: example_link_def)
  have b: "\<forall>(key, value) \<in> set (takeWhile
      (\<lambda>(key, value). \<not> isl (float_of example_float value))
      [(''A'', PStr ''3.14''), (''B'', PStr ''not-a-number''), (''C'', PStr ''3.14'')]).
      \<not> isl (parameters_write example_link key value)"
    by (simp add: w example_floats)
  have p: "parameters example_link = Map.empty"
    by (simp add: example_link_def)
  from set_params_applies_prefix [OF a b]
  show ?thesis
    by (simp add: w p example_floats)
qed

text \<open>
  C4 as stated fails: with \<^verbatim>\<open>A="3.14", B="not-a-number"\<close> the write of \<open>A\<close> has been made
  when \<open>B\<close> is rejected, and what leaves the method is \<open>GeneralError\<close> around the
  \<open>InvalidRequestError\<close>.
\<close>

theorem set_params_partial_write_counterexample:
  "set_params True example_float example_handler
      [(''A'', PStr ''3.14''), (''B'', PStr ''not-a-number'')]
     = Some (Inl (GeneralError
                (InvalidRequestError ''Parameter Value cannot be converted to float'')),
             example_handler\<lparr>vehicle :=
                  Some (example_link\<lparr>parameters := [''A'' \<mapsto> 3.14]\<rparr>)\<rparr>)
   \<and> parameters example_link ''A'' = None"
  by (simp add: set_params_def wait_for_param_load_def example_floats
      parameters_setitem_def example_handler_def example_link_def)

subsection \<open>C5: \<^verbatim>\<open>quick\<close> and \<^verbatim>\<open>stats\<close>\<close>

text \<open>
  C5, as amended. Neither method assigns anything or calls the link: both are functions
  from the handler to a payload. \<^verbatim>\<open>quick\<close> does not depend on the link or the target
  provider at all. \<^verbatim>\<open>stats\<close> depends on the link only through the three attributes it
  reads live: armed, armable and the system status; every other attribute of the link
  can change without changing its result.
\<close>

theorem quick_stats_link_reads:
  "quick (s\<lparr>vehicle := w, gs := g\<rparr>) = quick s
   \<and> stats to_dict (s\<lparr>vehicle := Some (v\<lparr>location_global_relative_frame := a1,
         attitude := a2, vehicle_battery := a3, groundspeed := a4, gps_0 := a5,
         vehicle_mode := a6, parameters := a7, parameters_write := a8,
         arm_endpoint := a9, arm_calls := a10\<rparr>), gs := g\<rparr>)
     = stats to_dict (s\<lparr>vehicle := Some v\<rparr>)"
  by (simp add: quick_def stats_def get_armed_def
      split: mode_field.split sum.split option.split)

text \<open>
  C5 as stated fails for \<^verbatim>\<open>stats\<close>: two handlers with the same cached snapshot, whose
  links differ in the armed flag, give different results.
\<close>

theorem stats_reads_link_counterexample:
  "quick (example_handler\<lparr>vehicle := Some (example_link\<lparr>vehicle_armed := Inr True\<rparr>)\<rparr>)
     = quick example_handler
   \<and> stats (\<lambda>cmd. cmd) example_handler
     = Inr \<lparr>stats_quick = quick example_handler, stats_mode = ''MANUAL'',
            stats_commands = [], stats_armed = ''DISARMED (ARMABLE)'',
            stats_status = ''STANDBY''\<rparr>
   \<and> stats (\<lambda>cmd. cmd)
       (example_handler\<lparr>vehicle := Some (example_link\<lparr>vehicle_armed := Inr True\<rparr>)\<rparr>)
     = Inr \<lparr>stats_quick = quick example_handler, stats_mode = ''MANUAL'',
            stats_commands = [], stats_armed = ''ARMED'',
            stats_status = ''STANDBY''\<rparr>"
  by (simp add: quick_def stats_def get_armed_def example_defs)

subsection \<open>C6: \<^verbatim>\<open>arm\<close>\<close>




subsection \<open>C7: \<^verbatim>\<open>connect\<close>\<close>

text \<open>
  C7, as amended. A \<^verbatim>\<open>connect\<close> that fails reports \<open>GeneralError\<close>. When establishing the
  link failed, the handler (its vehicle reference included) is as before. When the link
  was established and the refresh after it failed, the handler holds the new link.
\<close>

theorem connect_failure:
  assumes "connect dk_connect s = (Inl e, s')"
  shows "(\<exists>c. e = GeneralError c)
    \<and> (case (if serial s then dk_connect (port s) wait_for (Some BAUDRATE)
              else dk_connect (port s) wait_for None) of
         Inl x \<Rightarrow> s' = s
       | Inr v \<Rightarrow> vehicle s' = Some v)"
proof (cases "if serial s then dk_connect (port s) wait_for (Some BAUDRATE)
              else dk_connect (port s) wait_for None")
  case (Inl x)
  with assms show ?thesis by (auto simp: connect_def)
next
  case (Inr v)
  obtain r s2 where u: "update (s\<lparr>vehicle := Some v\<rparr>) = (r, s2)"
    by (cases "update (s\<lparr>vehicle := Some v\<rparr>)")
  have "vehicle s2 = Some v"
    using update_vehicle [of "s\<lparr>vehicle := Some v\<rparr>"] u by simp
  with assms Inr u show ?thesis
    by (auto simp: connect_def split: sum.splits)
qed

text \<open>
  The link cannot be established: the fresh handler stays as it was.
\<close>

theorem connect_failure_witness:
  "connect (\<lambda>p w b. Inl (LinkError ''no such port'')) (init example_gs example_config)
     = (Inl (GeneralError (LinkError ''no such port'')), init example_gs example_config)"
proof -
  have h: "connect (\<lambda>p w b. Inl (LinkError ''no such port'')) (init example_gs example_config)
     = (Inl (GeneralError (LinkError ''no such port'')), init example_gs example_config)"
    by (simp add: connect_def)
  from connect_failure [OF h] h show ?thesis by simp
qed

text \<open>
  C7 as stated fails: on a fresh handler the link is established, the GPS read of the
  first refresh raises, \<^verbatim>\<open>connect\<close> fails, and the handler keeps the link.
\<close>

theorem connect_retains_link_counterexample:
  "fst (connect (\<lambda>p w b. Inr (example_link\<lparr>gps_0 := Inl (LinkError ''no fix'')\<rparr>))
          (init example_gs example_config))
     = Inl (GeneralError (GeneralError (LinkError ''no fix'')))
   \<and> vehicle (init example_gs example_config) = None
   \<and> vehicle (snd (connect (\<lambda>p w b. Inr (example_link\<lparr>gps_0 := Inl (LinkError ''no fix'')\<rparr>))
          (init example_gs example_config)))
     = Some (example_link\<lparr>gps_0 := Inl (LinkError ''no fix'')\<rparr>)"
  by (simp add: connect_def update_defs yaw_degrees_def example_defs Let_def)

subsection \<open>C8: the header of a mission file\<close>

text \<open>
  C8, as amended. When the first line does not start with \<^verbatim>\<open>QGC WPL 110\<close>,
  \<^verbatim>\<open>readmission\<close> raises \<^verbatim>\<open>Exception("File is not supported WP version")\<close> and returns
  no list, whatever follows.
\<close>

theorem readmission_bad_header:
  assumes "\<not> startswith line ''QGC WPL 110''"
  shows "readmission py_int py_float (line # f)
    = Inl (Exception ''File is not supported WP version'')"
  using assms by (simp add: readmission_def)

text \<open>
  A file whose first line is \<^verbatim>\<open>BAD HEADER\<close> is rejected.
\<close>

theorem readmission_bad_header_witness:
  "readmission (\<lambda>s. None) (\<lambda>s. None) [''BAD HEADER'', ''not a row''] =
     Inl (Exception ''File is not supported WP version'')"
proof -
  have "\<not> startswith ''BAD HEADER'' ''QGC WPL 110''"
    by (simp add: startswith_def)
  from readmission_bad_header [OF this] show ?thesis .
qed

text \<open>
  C8 as stated fails: a first line that differs from the literal but starts with it is
  accepted.
\<close>

theorem readmission_header_prefix_counterexample:
  "''QGC WPL 110 (edited)'' \<noteq> ''QGC WPL 110''
   \<and> readmission (\<lambda>s. None) (\<lambda>s. None) [''QGC WPL 110 (edited)''] = Inr []"
  by (simp add: readmission_def startswith_def)

subsection \<open>C9: \<^verbatim>\<open>set_param\<close> and \<^verbatim>\<open>get_param\<close>\<close>

text \<open>
  What holds of \<^verbatim>\<open>set_param\<close>. When \<^verbatim>\<open>float(value)\<close> succeeds, a vehicle is connected and
  the link stores a float \<open>w\<close> for the value it is handed, \<^verbatim>\<open>set_param\<close> succeeds and a
  \<^verbatim>\<open>get_param\<close> of the key returns \<open>w\<close>. When \<^verbatim>\<open>float(value)\<close> raises \<^verbatim>\<open>ValueError\<close>,
  \<^verbatim>\<open>set_param\<close> fails with \<open>InvalidRequestError\<close> and the handler and the link are as
  before. With the link of the examples, \<^verbatim>\<open>"3.14"\<close> is read back as 3.14 and
  \<^verbatim>\<open>"not-a-number"\<close> is rejected.
\<close>

lemma set_param_then_get:
  "(float_of py_float value = Inr r \<and> vehicle s = Some v
      \<and> parameters_write v key value = Inr w
     \<longrightarrow> set_param True py_float s key value
           = Some (Inr (), s\<lparr>vehicle := Some (v\<lparr>parameters := (parameters v)(key \<mapsto> w)\<rparr>)\<rparr>)
         \<and> get_param True
             (s\<lparr>vehicle := Some (v\<lparr>parameters := (parameters v)(key \<mapsto> w)\<rparr>)\<rparr>) key
           = Some (Inr w))
   \<and> (float_of py_float value' = Inl ValueError
     \<longrightarrow> set_param True py_float s' key' value'
           = Some (Inl (InvalidRequestError ''Parameter Value cannot be converted to float''),
                   s'))"
  by (auto simp: set_param_def get_param_def wait_for_param_load_def parameters_setitem_def)

lemma set_param_examples:
  "set_param True example_float example_handler ''KEY'' (PStr ''3.14'')
     = Some (Inr (), example_handler\<lparr>vehicle :=
               Some (example_link\<lparr>parameters := [''KEY'' \<mapsto> 3.14]\<rparr>)\<rparr>)
   \<and> get_param True (example_handler\<lparr>vehicle :=
               Some (example_link\<lparr>parameters := [''KEY'' \<mapsto> 3.14]\<rparr>)\<rparr>) ''KEY''
     = Some (Inr 3.14)
   \<and> set_param True example_float example_handler ''KEY'' (PStr ''not-a-number'')
     = Some (Inl (InvalidRequestError ''Parameter Value cannot be converted to float''),
             example_handler)"
  by (simp add: set_param_def get_param_def wait_for_param_load_def parameters_setitem_def
      example_floats example_handler_def example_link_def)

text \<open>
  C9. The claim holds of the strings, as above. It fails on a value that \<^verbatim>\<open>float\<close> rejects
  with \<^verbatim>\<open>TypeError\<close>: for \<^verbatim>\<open>None\<close> the \<^verbatim>\<open>except ValueError\<close> of \<^verbatim>\<open>set_param\<close> does not
  apply, and the \<^verbatim>\<open>TypeError\<close> leaves the method as it is, where the claim promises
  \<open>InvalidRequestError\<close>. (The handler and the link are as before.)
\<close>

theorem set_param_none_raises_type_error:
  "set_param True example_float example_handler ''KEY'' PNone
     = Some (Inl TypeError, example_handler)"
  by (simp add: set_param_def wait_for_param_load_def example_floats)

subsection \<open>C10: \<^verbatim>\<open>quick\<close> on a fresh handler\<close>

text \<open>
  C10. On a handler as \<^verbatim>\<open>__init__\<close> leaves it, \<^verbatim>\<open>quick\<close> returns the payload whose seven
  fields are all \<^verbatim>\<open>None\<close>, and the handler's armed flag is false.
\<close>

theorem quick_after_init:
  "quick (init g c) =
     \<lparr>result_yaw = None, result_lat = None, result_lon = None,
      result_ground_speed = None, result_battery = None,
      result_destination = None, result_connection = None\<rparr>
   \<and> armed (init g c) = False"
  by (simp add: quick_def init_def)

end
